theory Spec2Isabelle
  imports Complex_Main
begin

section \<open>JavaScript values\<close>

text \<open>
  The application is a React Native screen written in TypeScript. Two versions of the
  screen are in the repository: \<^verbatim>\<open>src/App.tsx\<close> and a second, shorter one
  (\<^verbatim>\<open>src/unnamed/part_000\<close>). Definitions of the shorter one carry the suffix
  \<open>_part_000\<close>; definitions shared by both carry none.

  A JavaScript number is an IEEE double. The model keeps the three non-finite values apart
  and represents a finite double by the real number it denotes. Rounding to the nearest
  double is not modelled, except for overflow: a magnitude that rounds beyond the largest
  double becomes an infinity. The two zeros are one value.
\<close>

datatype jsnum = Fin real | PosInf | NegInf | NaN

text \<open>The least magnitude that rounds to an infinity: \<open>2^1024 - 2^970\<close>.\<close>

definition overflow_bound :: real where
  "overflow_bound = 2 ^ 1024 - 2 ^ 970"

definition round_double :: "real \<Rightarrow> jsnum" where
  "round_double r =
     (if overflow_bound \<le> r then PosInf
      else if r \<le> - overflow_bound then NegInf
      else Fin r)"

fun js_negate :: "jsnum \<Rightarrow> jsnum" where
  "js_negate (Fin r) = Fin (- r)"
| "js_negate PosInf = NegInf"
| "js_negate NegInf = PosInf"
| "js_negate NaN = NaN"

text \<open>The product \<open>a * b\<close> of two numbers.\<close>

fun js_sign :: "jsnum \<Rightarrow> int" where
  "js_sign (Fin r) = (if r < 0 then - 1 else if r = 0 then 0 else 1)"
| "js_sign PosInf = 1"
| "js_sign NegInf = - 1"
| "js_sign NaN = 0"

fun js_times :: "jsnum \<Rightarrow> jsnum \<Rightarrow> jsnum" where
  "js_times NaN b = NaN"
| "js_times a NaN = NaN"
| "js_times (Fin x) (Fin y) = round_double (x * y)"
| "js_times a b =
     (if js_sign a * js_sign b = 0 then NaN
      else if js_sign a * js_sign b < 0 then NegInf else PosInf)"

definition isNaN :: "jsnum \<Rightarrow> bool" where
  "isNaN n = (n = NaN)"

text \<open>\<^verbatim>\<open>Number.isInteger\<close>: a finite number without a fractional part.\<close>

fun Number_isInteger :: "jsnum \<Rightarrow> bool" where
  "Number_isInteger (Fin r) = (real_of_int \<lfloor>r\<rfloor> = r)"
| "Number_isInteger n = False"

text \<open>
  The values that flow through the form: the text of an input field, the number a schema
  transform turns it into, or \<^verbatim>\<open>undefined\<close>.
\<close>

datatype jsval = JUndefined | JNumber jsnum | JString string

subsection \<open>String to number\<close>

text \<open>
  \<^verbatim>\<open>Number(text)\<close> and unary \<^verbatim>\<open>+text\<close> read a whole string as a numeric literal
  (ECMAScript \<^emph>\<open>StringToNumber\<close>): white space around it is dropped, the empty string is
  \<open>0\<close>, a decimal literal may carry a sign, a fraction and an exponent, \<^verbatim>\<open>Infinity\<close> is
  a literal, an unsigned literal may be hexadecimal, octal or binary, and anything else is
  \<open>NaN\<close>. A string is a list of 8-bit characters here, so only the ASCII white space
  characters are recognised.
\<close>

definition isWhiteSpace :: "char \<Rightarrow> bool" where
  "isWhiteSpace c = (c \<in> set [CHR 0x09, CHR 0x0A, CHR 0x0B, CHR 0x0C, CHR 0x0D, CHR 0x20])"

definition trimStart :: "string \<Rightarrow> string" where
  "trimStart s = dropWhile isWhiteSpace s"

definition trim :: "string \<Rightarrow> string" where
  "trim s = rev (dropWhile isWhiteSpace (rev (dropWhile isWhiteSpace s)))"

text \<open>The value of a character as a digit of a radix up to 16, if it is one.\<close>

definition digit_of :: "nat \<Rightarrow> char \<Rightarrow> nat option" where
  "digit_of radix c =
     (let k = (of_char c :: nat);
          v = (if 48 \<le> k \<and> k \<le> 57 then Some (k - 48)
               else if 97 \<le> k \<and> k \<le> 102 then Some (k - 87)
               else if 65 \<le> k \<and> k \<le> 70 then Some (k - 55)
               else None)
      in case v of None \<Rightarrow> None | Some d \<Rightarrow> if d < radix then Some d else None)"

definition isDigit :: "nat \<Rightarrow> char \<Rightarrow> bool" where
  "isDigit radix c = (digit_of radix c \<noteq> None)"

definition digits_value :: "nat \<Rightarrow> string \<Rightarrow> nat" where
  "digits_value radix s = foldl (\<lambda>a c. radix * a + (case digit_of radix c of None \<Rightarrow> 0 | Some d \<Rightarrow> d)) 0 s"

text \<open>An optional sign: the factor and the rest of the string.\<close>

fun take_sign :: "string \<Rightarrow> bool \<times> string" where
  "take_sign (c # s) =
     (if c = CHR ''-'' then (True, s) else if c = CHR ''+'' then (False, s) else (False, c # s))"
| "take_sign [] = (False, [])"

text \<open>
  \<^emph>\<open>ExponentPart\<close>: nothing (exponent 0), or \<^verbatim>\<open>e\<close>/\<^verbatim>\<open>E\<close>, an optional sign and at
  least one decimal digit up to the end of the string.
\<close>

definition exponent_part :: "string \<Rightarrow> int option" where
  "exponent_part s =
     (case s of
        [] \<Rightarrow> Some 0
      | c # t \<Rightarrow>
          if c = CHR ''e'' \<or> c = CHR ''E'' then
            (case take_sign t of
               (neg, ds) \<Rightarrow>
                 if ds \<noteq> [] \<and> list_all (isDigit 10) ds
                 then Some (if neg then - int (digits_value 10 ds) else int (digits_value 10 ds))
                 else None)
          else None)"

definition scale10 :: "real \<Rightarrow> int \<Rightarrow> real" where
  "scale10 r e = (if 0 \<le> e then r * 10 ^ nat e else r / 10 ^ nat (- e))"

text \<open>
  \<^emph>\<open>StrUnsignedDecimalLiteral\<close>: \<^verbatim>\<open>Infinity\<close>, or digits with an optional fraction, or
  a fraction alone, then an optional exponent.
\<close>

definition unsigned_decimal :: "string \<Rightarrow> jsnum option" where
  "unsigned_decimal s =
     (if s = ''Infinity'' then Some PosInf
      else
        let ip = takeWhile (isDigit 10) s;
            r1 = dropWhile (isDigit 10) s;
            dot = (r1 \<noteq> [] \<and> hd r1 = CHR ''.'');
            fp = (if dot then takeWhile (isDigit 10) (tl r1) else []);
            r2 = (if dot then dropWhile (isDigit 10) (tl r1) else r1)
        in if ip = [] \<and> fp = [] then None
           else (case exponent_part r2 of
                   None \<Rightarrow> None
                 | Some e \<Rightarrow>
                     Some (round_double
                       (scale10 (real (digits_value 10 ip)
                                 + real (digits_value 10 fp) / 10 ^ length fp) e))))"

definition signed_decimal :: "string \<Rightarrow> jsnum option" where
  "signed_decimal s =
     (case take_sign s of
        (neg, t) \<Rightarrow> (if neg then map_option js_negate (unsigned_decimal t)
                     else unsigned_decimal t))"

text \<open>\<^emph>\<open>NonDecimalIntegerLiteral\<close>: \<^verbatim>\<open>0x\<close>, \<^verbatim>\<open>0o\<close> or \<^verbatim>\<open>0b\<close> and digits of the radix.\<close>

definition radix_of_prefix :: "char \<Rightarrow> nat option" where
  "radix_of_prefix c =
     (if c = CHR ''x'' \<or> c = CHR ''X'' then Some 16
      else if c = CHR ''o'' \<or> c = CHR ''O'' then Some 8
      else if c = CHR ''b'' \<or> c = CHR ''B'' then Some 2
      else None)"

definition non_decimal :: "string \<Rightarrow> jsnum option" where
  "non_decimal s =
     (case s of
        z # p # ds \<Rightarrow>
          (if z = CHR ''0'' then
             (case radix_of_prefix p of
                None \<Rightarrow> None
              | Some radix \<Rightarrow>
                  if ds \<noteq> [] \<and> list_all (isDigit radix) ds
                  then Some (round_double (real (digits_value radix ds)))
                  else None)
           else None)
      | _ \<Rightarrow> None)"

definition StringToNumber :: "string \<Rightarrow> jsnum" where
  "StringToNumber s =
     (let t = trim s in
      if t = [] then Fin 0
      else case non_decimal t of
             Some n \<Rightarrow> n
           | None \<Rightarrow> (case signed_decimal t of Some n \<Rightarrow> n | None \<Rightarrow> NaN))"

text \<open>\<^verbatim>\<open>Number(value)\<close>.\<close>

fun Number :: "jsval \<Rightarrow> jsnum" where
  "Number JUndefined = NaN"
| "Number (JNumber n) = n"
| "Number (JString s) = StringToNumber s"

subsection \<open>\<^verbatim>\<open>parseFloat\<close> and \<^verbatim>\<open>parseInt\<close>\<close>

text \<open>
  Both convert their argument to a string first and then read the longest prefix that is a
  literal, ignoring leading white space and whatever follows the literal.
\<close>

text \<open>The exponent of a prefix: it counts only when at least one digit follows.\<close>

definition exponent_prefix :: "string \<Rightarrow> int" where
  "exponent_prefix s =
     (case s of
        [] \<Rightarrow> 0
      | c # t \<Rightarrow>
          if c = CHR ''e'' \<or> c = CHR ''E'' then
            (case take_sign t of
               (neg, ds) \<Rightarrow>
                 let e = int (digits_value 10 (takeWhile (isDigit 10) ds))
                 in if neg then - e else e)
          else 0)"

definition parseFloat_string :: "string \<Rightarrow> jsnum" where
  "parseFloat_string s =
     (case take_sign (trimStart s) of
        (neg, u) \<Rightarrow>
          let ip = takeWhile (isDigit 10) u;
              r1 = dropWhile (isDigit 10) u;
              dot = (r1 \<noteq> [] \<and> hd r1 = CHR ''.'');
              fp = (if dot then takeWhile (isDigit 10) (tl r1) else []);
              r2 = (if dot then dropWhile (isDigit 10) (tl r1) else r1);
              n = (if take 8 u = ''Infinity'' then PosInf
                   else if ip = [] \<and> fp = [] then NaN
                   else round_double
                          (scale10 (real (digits_value 10 ip)
                                    + real (digits_value 10 fp) / 10 ^ length fp)
                             (exponent_prefix r2)))
          in if neg then js_negate n else n)"

definition parseInt_string :: "string \<Rightarrow> jsnum" where
  "parseInt_string s =
     (case take_sign (trimStart s) of
        (neg, u) \<Rightarrow>
          let ds = takeWhile (isDigit 10) u;
              n = (if ds = [] then NaN else round_double (real (digits_value 10 ds)))
          in if neg then js_negate n else n)"

text \<open>
  The first significant decimal digit of a positive number. Scaling a number below 1 up
  takes at most 324 steps for a double, the least positive one being \<open>2^-1074\<close>.
\<close>

fun lead_digit_nat :: "nat \<Rightarrow> nat" where
  "lead_digit_nat n = (if n < 10 then n else lead_digit_nat (n div 10))"

declare lead_digit_nat.simps [simp del]

fun lead_digit_frac :: "nat \<Rightarrow> real \<Rightarrow> nat" where
  "lead_digit_frac 0 a = 0"
| "lead_digit_frac (Suc k) a = (if 1 \<le> a then nat \<lfloor>a\<rfloor> else lead_digit_frac k (a * 10))"

definition lead_digit :: "real \<Rightarrow> nat" where
  "lead_digit a = (if 1 \<le> a then lead_digit_nat (nat \<lfloor>a\<rfloor>) else lead_digit_frac 400 a)"

text \<open>
  Applied to a number, \<^verbatim>\<open>parseFloat\<close> returns it: the string of a number reads back as
  that number. \<^verbatim>\<open>parseInt\<close> reads the digits before the decimal point or the exponent
  mark of the number's string, and that string is in exponent notation (one digit, then
  the fraction and \<^verbatim>\<open>e\<close>) for a magnitude of \<open>10^21\<close> or more and for a magnitude
  below \<open>10^-6\<close>.
\<close>

fun parseFloat :: "jsval \<Rightarrow> jsnum" where
  "parseFloat JUndefined = NaN"
| "parseFloat (JNumber n) = n"
| "parseFloat (JString s) = parseFloat_string s"

definition parseInt_number :: "jsnum \<Rightarrow> jsnum" where
  "parseInt_number n =
     (case n of
        Fin r \<Rightarrow>
          if r = 0 then Fin 0
          else if 1 / 10 ^ 6 \<le> \<bar>r\<bar> \<and> \<bar>r\<bar> < 10 ^ 21
          then Fin (sgn r * real_of_int \<lfloor>\<bar>r\<bar>\<rfloor>)
          else Fin (sgn r * real (lead_digit \<bar>r\<bar>))
      | _ \<Rightarrow> NaN)"

fun parseInt :: "jsval \<Rightarrow> jsnum" where
  "parseInt JUndefined = NaN"
| "parseInt (JNumber n) = parseInt_number n"
| "parseInt (JString s) = parseInt_string s"

section \<open>JSON documents\<close>

text \<open>
  The tree of a JSON document: what \<^verbatim>\<open>res.json()\<close> yields and what
  \<^verbatim>\<open>JSON.stringify\<close> writes (the text itself is not modelled). A number read from a
  response may overflow to an infinity. A number that is not finite is written as
  \<^verbatim>\<open>null\<close>.
\<close>

datatype json =
    JNull
  | JBool bool
  | JNum jsnum
  | JStr string
  | JArr "json list"
  | JObj "(string \<times> json) list"

definition stringify_number :: "jsnum \<Rightarrow> json" where
  "stringify_number n = (case n of Fin r \<Rightarrow> JNum (Fin r) | _ \<Rightarrow> JNull)"

text \<open>What \<^verbatim>\<open>value && ...\<close> tests.\<close>

fun truthy :: "json \<Rightarrow> bool" where
  "truthy JNull = False"
| "truthy (JBool b) = b"
| "truthy (JNum n) = (n \<noteq> NaN \<and> n \<noteq> Fin 0)"
| "truthy (JStr s) = (s \<noteq> [])"
| "truthy (JArr xs) = True"
| "truthy (JObj kvs) = True"

section \<open>Validation: the yup schemas\<close>

text \<open>
  A yup schema validates a value in three steps: the value is cast (the schema's
  transforms run in the order they were added), the cast value is checked against the
  schema's type (\<^verbatim>\<open>undefined\<close> is let through here), and then the tests run, the
  \<^verbatim>\<open>required\<close> test among them. The form's values are the texts of its inputs.
\<close>

datatype yup_error = TypeError | Required | OneOf | Integer

subsection \<open>\<^verbatim>\<open>src/App.tsx\<close>\<close>

text \<open>
  \<^verbatim>\<open>(value) => (isNaN(Number(value)) ? undefined : Number(value))\<close>, the transform of the
  five numeric fields.
\<close>

definition transform :: "jsval \<Rightarrow> jsval" where
  "transform v = (if isNaN (Number v) then JUndefined else JNumber (Number v))"

text \<open>
  \<^verbatim>\<open>yup.string().required().transform(...)\<close>: the schema is a string schema, so the
  type check asks for a string; \<^verbatim>\<open>required\<close> refuses \<^verbatim>\<open>undefined\<close> and the empty
  string.
\<close>

definition string_required_transform :: "string \<Rightarrow> yup_error + jsval" where
  "string_required_transform input =
     (case transform (JString input) of
        JUndefined \<Rightarrow> Inl Required
      | JNumber n \<Rightarrow> Inl TypeError
      | JString s \<Rightarrow> if s = [] then Inl Required else Inr (JString s))"

subsection \<open>\<^verbatim>\<open>src/unnamed/part_000\<close>\<close>

text \<open>
  \<^verbatim>\<open>yup.number()\<close> casts a string by removing all white space and applying unary
  \<^verbatim>\<open>+\<close>, the empty string becoming \<open>NaN\<close>; its type check accepts every number but
  \<open>NaN\<close>. \<^verbatim>\<open>integer()\<close> tests \<^verbatim>\<open>Number.isInteger\<close>.
\<close>

definition remove_white_space :: "string \<Rightarrow> string" where
  "remove_white_space s = filter (\<lambda>c. \<not> isWhiteSpace c) s"

definition number_cast :: "string \<Rightarrow> jsnum" where
  "number_cast input =
     (let parsed = remove_white_space input
      in if parsed = [] then NaN else StringToNumber parsed)"

definition number_required :: "string \<Rightarrow> yup_error + jsval" where
  "number_required input =
     (let v = number_cast input
      in if isNaN v then Inl TypeError else Inr (JNumber v))"

definition number_integer_required :: "string \<Rightarrow> yup_error + jsval" where
  "number_integer_required input =
     (let v = number_cast input
      in if isNaN v then Inl TypeError
         else if Number_isInteger v then Inr (JNumber v)
         else Inl Integer)"

subsection \<open>Both versions\<close>

definition model_names :: "string list" where
  "model_names = [''logreg'', ''randforest'', ''gradboost'', ''svm_rbf'', ''mlp'']"

text \<open>\<^verbatim>\<open>yup.string().oneOf([...]).required()\<close>.\<close>

definition string_oneOf_required :: "string list \<Rightarrow> string \<Rightarrow> yup_error + string" where
  "string_oneOf_required allowed input =
     (if input \<in> set allowed then (if input = [] then Inl Required else Inr input)
      else Inl OneOf)"

text \<open>
  The form's data. The type parameter is the type of the five numeric fields: their text
  (\<open>string\<close>) in the form, the cast value (\<open>jsval\<close>) in what the resolver hands to
  \<^verbatim>\<open>onSubmit\<close>.
\<close>

record 'a FormData =
  Bet :: 'a
  TotalGames :: 'a
  TotalProfit :: 'a
  TotalLosses :: 'a
  CashedOut :: 'a
  model_name :: string

record object_schema =
  Bet_schema :: "string \<Rightarrow> yup_error + jsval"
  TotalGames_schema :: "string \<Rightarrow> yup_error + jsval"
  TotalProfit_schema :: "string \<Rightarrow> yup_error + jsval"
  TotalLosses_schema :: "string \<Rightarrow> yup_error + jsval"
  CashedOut_schema :: "string \<Rightarrow> yup_error + jsval"
  model_name_schema :: "string \<Rightarrow> yup_error + string"

definition schema :: object_schema where
  "schema =
     \<lparr> Bet_schema = string_required_transform,
       TotalGames_schema = string_required_transform,
       TotalProfit_schema = string_required_transform,
       TotalLosses_schema = string_required_transform,
       CashedOut_schema = string_required_transform,
       model_name_schema = string_oneOf_required model_names \<rparr>"

definition schema_part_000 :: object_schema where
  "schema_part_000 =
     \<lparr> Bet_schema = number_required,
       TotalGames_schema = number_integer_required,
       TotalProfit_schema = number_required,
       TotalLosses_schema = number_required,
       CashedOut_schema = number_required,
       model_name_schema = string_oneOf_required model_names \<rparr>"

text \<open>
  \<^verbatim>\<open>yupResolver(schema)\<close> validates the whole object without stopping at the first
  error and returns either the errors, one per failing field and in the order of the
  fields, or the cast values.
\<close>

definition field_errors :: "string \<Rightarrow> yup_error + 'a \<Rightarrow> (string \<times> yup_error) list" where
  "field_errors name r = (case r of Inl e \<Rightarrow> [(name, e)] | Inr v \<Rightarrow> [])"

definition yupResolver ::
  "object_schema \<Rightarrow> string FormData \<Rightarrow> (string \<times> yup_error) list + jsval FormData" where
  "yupResolver sch vals =
     (let b = Bet_schema sch (Bet vals);
          g = TotalGames_schema sch (TotalGames vals);
          p = TotalProfit_schema sch (TotalProfit vals);
          l = TotalLosses_schema sch (TotalLosses vals);
          c = CashedOut_schema sch (CashedOut vals);
          m = model_name_schema sch (model_name vals)
      in case (b, g, p, l, c, m) of
           (Inr vb, Inr vg, Inr vp, Inr vl, Inr vc, Inr vm) \<Rightarrow>
             Inr \<lparr> Bet = vb, TotalGames = vg, TotalProfit = vp, TotalLosses = vl,
                   CashedOut = vc, model_name = vm \<rparr>
         | _ \<Rightarrow>
             Inl (field_errors ''Bet'' b @ field_errors ''TotalGames'' g
                  @ field_errors ''TotalProfit'' p @ field_errors ''TotalLosses'' l
                  @ field_errors ''CashedOut'' c @ field_errors ''model_name'' m))"

text \<open>Whether a field's schema accepted its input, and the fields the resolver goes through.\<close>

definition passes :: "yup_error + 'a \<Rightarrow> bool" where
  "passes r = (case r of Inl e \<Rightarrow> False | Inr v \<Rightarrow> True)"

definition field_names :: "string list" where
  "field_names =
     [''Bet'', ''TotalGames'', ''TotalProfit'', ''TotalLosses'', ''CashedOut'', ''model_name'']"

definition field_passes :: "object_schema \<Rightarrow> string FormData \<Rightarrow> string \<Rightarrow> bool" where
  "field_passes sch vals name =
     (if name = ''Bet'' then passes (Bet_schema sch (Bet vals))
      else if name = ''TotalGames'' then passes (TotalGames_schema sch (TotalGames vals))
      else if name = ''TotalProfit'' then passes (TotalProfit_schema sch (TotalProfit vals))
      else if name = ''TotalLosses'' then passes (TotalLosses_schema sch (TotalLosses vals))
      else if name = ''CashedOut'' then passes (CashedOut_schema sch (CashedOut vals))
      else passes (model_name_schema sch (model_name vals)))"

section \<open>The screen's state and the submit handler\<close>

text \<open>
  The component holds \<^verbatim>\<open>result\<close> (initially \<^verbatim>\<open>null\<close>) and \<^verbatim>\<open>loading\<close>; the form
  library holds the validation errors. The remaining fields record the effects of the
  handler: the requests handed to \<^verbatim>\<open>fetch\<close>, the arguments of the calls of
  \<^verbatim>\<open>setResult\<close>, and what was written with \<^verbatim>\<open>console.error\<close>.
\<close>

record request =
  url :: string
  http_method :: string
  headers :: "(string \<times> string) list"
  body :: json

datatype js_error = FetchFailed | BodyNotJson

record app_state =
  result :: json
  loading :: bool
  errors :: "(string \<times> yup_error) list"
  fetched :: "request list"
  setResult_calls :: "json list"
  console :: "js_error list"

definition initial_state :: app_state where
  "initial_state =
     \<lparr> result = JNull, loading = False, errors = [], fetched = [],
       setResult_calls = [], console = [] \<rparr>"

definition API_BASE :: string where
  "API_BASE = ''https://YOUR_NGROK_URL.ngrok-free.app''"

text \<open>
  The argument of \<^verbatim>\<open>JSON.stringify\<close>: the spread of \<^verbatim>\<open>data\<close> keeps the order of its
  six keys, and the five numeric keys are overwritten in place.
\<close>

definition request_body :: "(jsval \<Rightarrow> jsnum) \<Rightarrow> (jsval \<Rightarrow> jsnum) \<Rightarrow> jsval FormData \<Rightarrow> json" where
  "request_body toFloat toInt data =
     JObj [(''Bet'', stringify_number (toFloat (Bet data))),
           (''TotalGames'', stringify_number (toInt (TotalGames data))),
           (''TotalProfit'', stringify_number (toFloat (TotalProfit data))),
           (''TotalLosses'', stringify_number (toFloat (TotalLosses data))),
           (''CashedOut'', stringify_number (toFloat (CashedOut data))),
           (''model_name'', JStr (model_name data))]"

definition predict_request :: "json \<Rightarrow> request" where
  "predict_request b =
     \<lparr> url = API_BASE @ ''/predict'', http_method = ''POST'',
       headers = [(''Content-Type'', ''application/json'')], body = b \<rparr>"

text \<open>
  \<^verbatim>\<open>onSubmit\<close> up to its first \<^verbatim>\<open>await\<close>: \<^verbatim>\<open>setLoading(true)\<close> and the call of
  \<^verbatim>\<open>fetch\<close>. \<^verbatim>\<open>src/App.tsx\<close> converts the five fields with \<^verbatim>\<open>Number\<close>, the
  shorter version with \<^verbatim>\<open>parseFloat\<close> and, for \<^verbatim>\<open>TotalGames\<close>, \<^verbatim>\<open>parseInt\<close>.
\<close>

definition onSubmit_start :: "jsval FormData \<Rightarrow> app_state \<Rightarrow> app_state" where
  "onSubmit_start data st =
     st \<lparr> loading := True,
          fetched := fetched st @ [predict_request (request_body Number Number data)] \<rparr>"

definition onSubmit_start_part_000 :: "jsval FormData \<Rightarrow> app_state \<Rightarrow> app_state" where
  "onSubmit_start_part_000 data st =
     st \<lparr> loading := True,
          fetched := fetched st @ [predict_request (request_body parseFloat parseInt data)] \<rparr>"

text \<open>
  What the network gives back: \<^verbatim>\<open>fetch\<close> rejects, or it resolves with a response of
  some status whose body is JSON or is not (\<^verbatim>\<open>res.json()\<close> rejects then).
\<close>

datatype response_body = NotJson | JsonBody json

datatype fetch_outcome = Rejected | Responded nat response_body

text \<open>How the promise returned by \<^verbatim>\<open>onSubmit\<close> settles.\<close>

datatype completion = Fulfilled | Thrown js_error

text \<open>
  The rest of \<^verbatim>\<open>onSubmit\<close>, the same in both versions: \<^verbatim>\<open>setResult(json)\<close> when a
  JSON body arrived, \<^verbatim>\<open>console.error(err)\<close> in the \<^verbatim>\<open>catch\<close> otherwise, and
  \<^verbatim>\<open>setLoading(false)\<close> in the \<^verbatim>\<open>finally\<close>.
\<close>

fun onSubmit_settle :: "fetch_outcome \<Rightarrow> app_state \<Rightarrow> app_state \<times> completion" where
  "onSubmit_settle Rejected st =
     (st \<lparr> console := console st @ [FetchFailed], loading := False \<rparr>, Fulfilled)"
| "onSubmit_settle (Responded status NotJson) st =
     (st \<lparr> console := console st @ [BodyNotJson], loading := False \<rparr>, Fulfilled)"
| "onSubmit_settle (Responded status (JsonBody j)) st =
     (st \<lparr> result := j, setResult_calls := setResult_calls st @ [j], loading := False \<rparr>,
      Fulfilled)"

text \<open>
  \<^verbatim>\<open>handleSubmit(onSubmit)\<close> of the form library: the resolver runs on the form's
  values; with errors they are stored and \<^verbatim>\<open>onSubmit\<close> is not called, without errors
  \<^verbatim>\<open>onSubmit\<close> is called with the resolver's values.
\<close>

definition handleSubmit ::
  "object_schema \<Rightarrow> (jsval FormData \<Rightarrow> app_state \<Rightarrow> app_state)
     \<Rightarrow> string FormData \<Rightarrow> app_state \<Rightarrow> app_state" where
  "handleSubmit sch onValid vals st =
     (case yupResolver sch vals of
        Inl errs \<Rightarrow> st \<lparr> errors := errs \<rparr>
      | Inr data \<Rightarrow> onValid data (st \<lparr> errors := [] \<rparr>))"

subsection \<open>Overlapping submissions\<close>

text \<open>
  The handler runs on one thread and is suspended only while it awaits the network. A run
  is a sequence of events: a call of \<^verbatim>\<open>onSubmit\<close>, or the outcome of the \<open>k\<close>-th
  request arriving, which resumes the call that issued it. An outcome arrives once, and
  only for a request that was issued.
\<close>

datatype event = Submit "jsval FormData" | Arrive nat fetch_outcome

record system =
  app :: app_state
  settled :: "nat list"

definition initial_system :: system where
  "initial_system = \<lparr> app = initial_state, settled = [] \<rparr>"

fun step :: "(jsval FormData \<Rightarrow> app_state \<Rightarrow> app_state) \<Rightarrow> system \<Rightarrow> event \<Rightarrow> system" where
  "step start sys (Submit data) = sys \<lparr> app := start data (app sys) \<rparr>"
| "step start sys (Arrive k outcome) =
     (if k < length (fetched (app sys)) \<and> k \<notin> set (settled sys)
      then sys \<lparr> app := fst (onSubmit_settle outcome (app sys)), settled := k # settled sys \<rparr>
      else sys)"

definition run :: "(jsval FormData \<Rightarrow> app_state \<Rightarrow> app_state) \<Rightarrow> event list \<Rightarrow> system" where
  "run start evs = foldl (step start) initial_system evs"

section \<open>The result card\<close>

text \<open>
  The card is rendered under \<^verbatim>\<open>result && ...\<close>. \<^verbatim>\<open>getRiskLevel\<close> looks the cluster
  up in a table with the keys 0, 1 and 2 and falls back to the entry labelled
  \<^verbatim>\<open>Unknown\<close>.
\<close>

definition result_card_shown :: "app_state \<Rightarrow> bool" where
  "result_card_shown st = truthy (result st)"

record level =
  label :: string
  color :: string
  bg :: string

definition levels :: "(jsnum \<times> level) list" where
  "levels =
     [(Fin 0, \<lparr> label = ''Low Risk'', color = ''#4CAF50'', bg = ''#E8F5E8'' \<rparr>),
      (Fin 1, \<lparr> label = ''Medium Risk'', color = ''#FF9800'', bg = ''#FFF3E0'' \<rparr>),
      (Fin 2, \<lparr> label = ''High Risk'', color = ''#F44336'', bg = ''#FFEBEE'' \<rparr>)]"

definition getRiskLevel :: "jsnum \<Rightarrow> level" where
  "getRiskLevel cluster =
     (case map_of levels cluster of
        Some l \<Rightarrow> l
      | None \<Rightarrow> \<lparr> label = ''Unknown'', color = ''#757575'', bg = ''#F5F5F5'' \<rparr>)"

text \<open>
  The width of the confidence bar is \<^verbatim>\<open>result.confidence * 100\<close> percent; the text
  beside it is that product with one digit after the point (\<^verbatim>\<open>toFixed(1)\<close>; two digits
  in the shorter version). \<open>toFixed\<close> gives the number the text shows.
\<close>

definition confidence_percent :: "jsnum \<Rightarrow> jsnum" where
  "confidence_percent confidence = js_times confidence (Fin 100)"

fun toFixed :: "nat \<Rightarrow> jsnum \<Rightarrow> jsnum" where
  "toFixed f (Fin x) =
     (if 10 ^ 21 \<le> \<bar>x\<bar> then Fin x
      else Fin (sgn x * real_of_int \<lfloor>\<bar>x\<bar> * 10 ^ f + 1 / 2\<rfloor> / 10 ^ f))"
| "toFixed f n = n"


definition confidence_text_part_000 :: "jsnum \<Rightarrow> jsnum" where
  "confidence_text_part_000 confidence = toFixed 2 (confidence_percent confidence)"

section \<open>Sample inputs\<close>

definition sample_data :: "jsval FormData" where
  "sample_data =
     \<lparr> Bet = JNumber (Fin 10), TotalGames = JNumber (Fin 3), TotalProfit = JNumber (Fin 5),
       TotalLosses = JNumber (Fin 2), CashedOut = JNumber (Fin 1), model_name = ''mlp'' \<rparr>"

definition sample_values :: "string FormData" where
  "sample_values =
     \<lparr> Bet = ''10'', TotalGames = ''3'', TotalProfit = ''5'', TotalLosses = ''2'',
       CashedOut = ''1'', model_name = ''mlp'' \<rparr>"

definition low_response :: json where
  "low_response = JObj [(''cluster'', JNum (Fin 0)), (''confidence'', JNum (Fin (9 / 10)))]"

definition high_response :: json where
  "high_response = JObj [(''cluster'', JNum (Fin 2)), (''confidence'', JNum (Fin (8 / 10)))]"

section \<open>Properties\<close>

subsection \<open>Numbers\<close>

lemma overflow_bound_large: "10 ^ 22 < overflow_bound"
  by (simp add: overflow_bound_def)

lemma round_double_small: "\<bar>r\<bar> \<le> 10 ^ 22 \<Longrightarrow> round_double r = Fin r"
  using overflow_bound_large by (auto simp: round_double_def)


subsection \<open>The result card\<close>

text \<open>
  Claim C3. The risk tier is a total function of the cluster: cluster 0 gives the entry
  labelled Low Risk, 1 Medium Risk, 2 High Risk, and every other number, the non-finite
  ones included, the entry labelled Unknown. \<open>getRiskLevel\<close> is a function of the
  cluster alone, so equal clusters give equal tiers.
\<close>

theorem getRiskLevel_by_cluster:
  "getRiskLevel cluster =
     (if cluster = Fin 0 then \<lparr> label = ''Low Risk'', color = ''#4CAF50'', bg = ''#E8F5E8'' \<rparr>
      else if cluster = Fin 1 then \<lparr> label = ''Medium Risk'', color = ''#FF9800'', bg = ''#FFF3E0'' \<rparr>
      else if cluster = Fin 2 then \<lparr> label = ''High Risk'', color = ''#F44336'', bg = ''#FFEBEE'' \<rparr>
      else \<lparr> label = ''Unknown'', color = ''#757575'', bg = ''#F5F5F5'' \<rparr>)"
  by (simp add: getRiskLevel_def levels_def)




subsection \<open>Reading numbers\<close>

lemmas parse_defs =
  StringToNumber_def trim_def isWhiteSpace_def non_decimal_def radix_of_prefix_def
  signed_decimal_def unsigned_decimal_def isDigit_def digit_of_def digits_value_def
  exponent_part_def scale10_def remove_white_space_def


lemma number_cast_examples:
  "number_cast ''10'' = Fin 10"
  "number_cast ''3'' = Fin 3"
  "number_cast ''5'' = Fin 5"
  "number_cast ''2'' = Fin 2"
  "number_cast ''1'' = Fin 1"
  "number_cast ''-5'' = Fin (- 5)"
  "number_cast ''1e21'' = Fin (10 ^ 21)"
  by (simp_all add: number_cast_def parse_defs round_double_small)

lemma parseInt_number_example: "parseInt_number (Fin 1000000000000000000000) = Fin 1"
  by (simp add: parseInt_number_def lead_digit_def lead_digit_nat.simps)

lemma parseInt_number_integer:
  assumes "Number_isInteger (Fin g)" "\<bar>g\<bar> < 10 ^ 21"
  shows "parseInt_number (Fin g) = Fin g"
proof (cases "g = 0")
  case True
  then show ?thesis by (simp add: parseInt_number_def)
next
  case False
  obtain k :: int where k: "g = real_of_int k"
    using assms(1) by (metis Number_isInteger.simps(1))
  have "k \<noteq> 0" using False k by simp
  then have "1 \<le> \<bar>k\<bar>" by linarith
  then have big: "1 / 10 ^ 6 \<le> \<bar>g\<bar>" using k by simp
  have "sgn g * real_of_int \<lfloor>\<bar>g\<bar>\<rfloor> = g"
    unfolding k by (simp add: sgn_if flip: of_int_abs)
  then show ?thesis using False big assms(2) by (simp add: parseInt_number_def)
qed

text \<open>A text of decimal digits reads as the number the digits denote.\<close>

lemma digit_not_white_space: "isDigit 10 c \<Longrightarrow> \<not> isWhiteSpace c"
  by (auto simp: isDigit_def digit_of_def isWhiteSpace_def Let_def split: if_splits)

lemma digit_not_sign:
  "isDigit 10 c \<Longrightarrow> c \<noteq> CHR ''-'' \<and> c \<noteq> CHR ''+'' \<and> c \<noteq> CHR ''I''"
  by (auto simp: isDigit_def digit_of_def Let_def split: if_splits)

lemma digit_not_prefix: "isDigit 10 c \<Longrightarrow> radix_of_prefix c = None"
  by (auto simp: isDigit_def digit_of_def radix_of_prefix_def Let_def split: if_splits)

lemma digits_trim:
  assumes "s \<noteq> []" "list_all (isDigit 10) s"
  shows "trim s = s"
proof -
  have "\<not> isWhiteSpace (hd s)" "\<not> isWhiteSpace (last s)"
    using assms digit_not_white_space by (auto simp: list_all_iff)
  then have "dropWhile isWhiteSpace s = s" "dropWhile isWhiteSpace (rev s) = rev s"
    by (simp_all only: dropWhile_eq_self_iff hd_rev simp_thms)
  then show ?thesis by (simp only: trim_def rev_rev_ident)
qed

lemma digits_non_decimal:
  assumes "list_all (isDigit 10) s"
  shows "non_decimal s = None"
  using assms digit_not_prefix
  by (auto simp: non_decimal_def split: list.splits option.splits)

lemma digits_unsigned_decimal:
  assumes "s \<noteq> []" "list_all (isDigit 10) s"
  shows "unsigned_decimal s = Some (round_double (real (digits_value 10 s)))"
proof -
  have tw: "takeWhile (isDigit 10) s = s" "dropWhile (isDigit 10) s = []"
    using assms(2) by (simp_all add: list_all_iff)
  have "isDigit 10 (hd s)" using assms by (cases s) simp_all
  then have "hd s \<noteq> CHR ''I''" using digit_not_sign by blast
  then have "s \<noteq> ''Infinity''" by auto
  then show ?thesis
    using assms(1)
    by (simp add: unsigned_decimal_def tw exponent_part_def scale10_def digits_value_def)
qed

lemma digits_StringToNumber:
  assumes "s \<noteq> []" "list_all (isDigit 10) s"
  shows "StringToNumber s = round_double (real (digits_value 10 s))"
proof -
  have "isDigit 10 (hd s)" using assms by (cases s) simp_all
  then have "take_sign s = (False, s)"
    using assms(1) digit_not_sign by (cases s) auto
  then show ?thesis
    using assms
    by (simp add: StringToNumber_def digits_trim digits_non_decimal signed_decimal_def
        digits_unsigned_decimal)
qed

lemma digits_number_cast:
  assumes "s \<noteq> []" "list_all (isDigit 10) s"
  shows "number_cast s = round_double (real (digits_value 10 s))"
proof -
  have "remove_white_space s = s"
    using assms(2) digit_not_white_space by (simp add: remove_white_space_def list_all_iff)
  then show ?thesis
    using assms by (simp add: number_cast_def digits_StringToNumber)
qed

subsection \<open>Validation\<close>





lemma yupResolver_Inr_iff:
  "(\<exists>data. yupResolver sch vals = Inr data) = list_all (field_passes sch vals) field_names"
  by (auto simp: yupResolver_def field_passes_def field_names_def passes_def Let_def
      split: sum.splits)

lemma yupResolver_Inl:
  "yupResolver sch vals = Inl errs \<Longrightarrow>
     map fst errs = filter (\<lambda>n. \<not> field_passes sch vals n) field_names \<and> errs \<noteq> []"
  by (auto simp: yupResolver_def field_passes_def field_names_def passes_def field_errors_def
      Let_def split: sum.splits)


text \<open>In the shorter version a non-empty text of decimal digits passes validation.\<close>

lemma digits_pass_validation:
  assumes "s \<noteq> []" "list_all (isDigit 10) s"
  shows "passes (number_required s)"
  using assms
  by (simp add: passes_def number_required_def digits_number_cast isNaN_def round_double_def)

lemma digits_pass_integer_validation:
  assumes "s \<noteq> []" "list_all (isDigit 10) s" "real (digits_value 10 s) < overflow_bound"
  shows "passes (number_integer_required s)"
proof -
  have "0 < overflow_bound" by (simp add: overflow_bound_def)
  then have "round_double (real (digits_value 10 s)) = Fin (real (digits_value 10 s))"
    using assms(3) by (simp add: round_double_def)
  then show ?thesis
    using assms(1,2)
    by (simp add: passes_def number_integer_required_def digits_number_cast isNaN_def)
qed

text \<open>
  In \<^verbatim>\<open>src/App.tsx\<close> the transform of a numeric field yields a number or
  \<^verbatim>\<open>undefined\<close>, never a string, and the field's schema is a string schema: a number
  fails its type check and \<^verbatim>\<open>undefined\<close> fails \<^verbatim>\<open>required\<close>. So no text passes, the
  resolver never succeeds, and \<^verbatim>\<open>handleSubmit\<close> never calls \<^verbatim>\<open>onSubmit\<close>.
\<close>

lemma string_required_transform_refuses: "\<not> passes (string_required_transform input)"
  by (simp add: string_required_transform_def transform_def passes_def)

lemma schema_never_valid: "yupResolver schema vals \<noteq> Inr data"
proof
  assume "yupResolver schema vals = Inr data"
  then have "list_all (field_passes schema vals) field_names"
    using yupResolver_Inr_iff [of schema vals] by blast
  then have "passes (Bet_schema schema (Bet vals))"
    by (simp add: field_names_def field_passes_def)
  then show False
    by (simp add: schema_def string_required_transform_refuses)
qed

lemma handleSubmit_never_submits:
  "fetched (handleSubmit schema onSubmit_start vals st) = fetched st
   \<and> loading (handleSubmit schema onSubmit_start vals st) = loading st
   \<and> result (handleSubmit schema onSubmit_start vals st) = result st
   \<and> errors (handleSubmit schema onSubmit_start vals st) \<noteq> []"
proof (cases "yupResolver schema vals")
  case (Inl errs)
  then show ?thesis using yupResolver_Inl [OF Inl] by (simp add: handleSubmit_def)
next
  case (Inr data)
  then show ?thesis using schema_never_valid by blast
qed









subsection \<open>Submitting\<close>



text \<open>
  Claim C9 at the input \<^verbatim>\<open>1e21\<close> for \<^verbatim>\<open>TotalGames\<close>, in the shorter version: the
  text passes validation and is cast to the integer \<open>10^21\<close>, and the body of the request
  carries \<open>1\<close> for \<^verbatim>\<open>TotalGames\<close>.
\<close>

theorem large_TotalGames_truncated:
  "map body (fetched (handleSubmit schema_part_000 onSubmit_start_part_000
       (sample_values \<lparr> TotalGames := ''1e21'' \<rparr>) initial_state))
     = [JObj [(''Bet'', JNum (Fin 10)), (''TotalGames'', JNum (Fin 1)),
              (''TotalProfit'', JNum (Fin 5)), (''TotalLosses'', JNum (Fin 2)),
              (''CashedOut'', JNum (Fin 1)), (''model_name'', JStr ''mlp'')]]
   \<and> passes (TotalGames_schema schema_part_000 ''1e21'')
   \<and> number_cast ''1e21'' = Fin (10 ^ 21)"
  by (simp add: handleSubmit_def yupResolver_def schema_part_000_def sample_values_def
        number_required_def number_integer_required_def number_cast_examples isNaN_def
        string_oneOf_required_def model_names_def onSubmit_start_part_000_def initial_state_def
        predict_request_def request_body_def parseInt_number_example
        stringify_number_def passes_def)

text \<open>
  The rest of claim C9 holds. \<^verbatim>\<open>onSubmit\<close> of \<^verbatim>\<open>src/App.tsx\<close> sends one request,
  a POST to the \<^verbatim>\<open>/predict\<close> endpoint with the JSON content type, whose body has exactly
  the six keys, each numeric key with the number its field converts to when that number
  is finite. The shorter version does the same for input that passed validation, as long
  as \<^verbatim>\<open>TotalGames\<close> is below \<open>10^21\<close> in magnitude; \<^verbatim>\<open>TotalGames\<close> is then an
  integer and the model name one of the five.
\<close>

lemma request_of_finite_data:
  assumes "Number (Bet data) = Fin b" "Number (TotalGames data) = Fin g"
      "Number (TotalProfit data) = Fin p" "Number (TotalLosses data) = Fin l"
      "Number (CashedOut data) = Fin c"
  shows "fetched (onSubmit_start data st) = fetched st @
     [\<lparr> url = ''https://YOUR_NGROK_URL.ngrok-free.app/predict'', http_method = ''POST'',
        headers = [(''Content-Type'', ''application/json'')],
        body = JObj [(''Bet'', JNum (Fin b)), (''TotalGames'', JNum (Fin g)),
                     (''TotalProfit'', JNum (Fin p)), (''TotalLosses'', JNum (Fin l)),
                     (''CashedOut'', JNum (Fin c)), (''model_name'', JStr (model_name data))] \<rparr>]"
  using assms
  by (simp add: onSubmit_start_def predict_request_def request_body_def API_BASE_def
        stringify_number_def)

lemma request_of_finite_input_part_000:
  assumes ok: "yupResolver schema_part_000 vals = Inr data"
      and b: "number_cast (Bet vals) = Fin b" and g: "number_cast (TotalGames vals) = Fin g"
      and p: "number_cast (TotalProfit vals) = Fin p"
      and l: "number_cast (TotalLosses vals) = Fin l"
      and c: "number_cast (CashedOut vals) = Fin c"
      and small: "\<bar>g\<bar> < 10 ^ 21"
  shows "fetched (handleSubmit schema_part_000 onSubmit_start_part_000 vals st) = fetched st @
     [\<lparr> url = ''https://YOUR_NGROK_URL.ngrok-free.app/predict'', http_method = ''POST'',
        headers = [(''Content-Type'', ''application/json'')],
        body = JObj [(''Bet'', JNum (Fin b)), (''TotalGames'', JNum (Fin g)),
                     (''TotalProfit'', JNum (Fin p)), (''TotalLosses'', JNum (Fin l)),
                     (''CashedOut'', JNum (Fin c)), (''model_name'', JStr (model_name vals))] \<rparr>]
       \<and> Number_isInteger (Fin g) \<and> model_name vals \<in> set model_names"
proof -
  have all: "list_all (field_passes schema_part_000 vals) field_names"
    using ok yupResolver_Inr_iff [of schema_part_000 vals] by blast
  have int: "Number_isInteger (Fin g)"
    using all g by (auto simp: field_names_def field_passes_def schema_part_000_def passes_def
        number_integer_required_def isNaN_def Let_def split: if_splits)
  have m: "model_name vals \<in> set model_names"
    using all by (auto simp: field_names_def field_passes_def schema_part_000_def passes_def
        string_oneOf_required_def split: if_splits)
  have d: "data = \<lparr> Bet = JNumber (Fin b), TotalGames = JNumber (Fin g),
                    TotalProfit = JNumber (Fin p), TotalLosses = JNumber (Fin l),
                    CashedOut = JNumber (Fin c), model_name = model_name vals \<rparr>"
    using ok b g p l c int m
    by (auto simp: yupResolver_def schema_part_000_def number_required_def
        number_integer_required_def isNaN_def string_oneOf_required_def Let_def
        split: sum.splits if_splits)
  show ?thesis
    using ok int m small
    by (simp add: handleSubmit_def d onSubmit_start_part_000_def predict_request_def
        request_body_def API_BASE_def stringify_number_def parseInt_number_integer)
qed

lemma fetched_start [simp]:
  "fetched (onSubmit_start data st)
     = fetched st @ [predict_request (request_body Number Number data)]"
  "fetched (onSubmit_start_part_000 data st)
     = fetched st @ [predict_request (request_body parseFloat parseInt data)]"
  by (simp_all add: onSubmit_start_def onSubmit_start_part_000_def)

lemma start_frame [simp]:
  "result (onSubmit_start data st) = result st"
  "setResult_calls (onSubmit_start data st) = setResult_calls st"
  "console (onSubmit_start data st) = console st"
  "errors (onSubmit_start data st) = errors st"
  "loading (onSubmit_start data st) = True"
  "result (onSubmit_start_part_000 data st) = result st"
  "setResult_calls (onSubmit_start_part_000 data st) = setResult_calls st"
  "console (onSubmit_start_part_000 data st) = console st"
  "errors (onSubmit_start_part_000 data st) = errors st"
  "loading (onSubmit_start_part_000 data st) = True"
  by (simp_all add: onSubmit_start_def onSubmit_start_part_000_def)



text \<open>
  Claim C10. When \<^verbatim>\<open>fetch\<close> rejects during a submission, in either version the result
  is the one published before the submission and the result card is shown as before,
  \<^verbatim>\<open>setResult\<close> is not called,
  \<^verbatim>\<open>loading\<close> ends \<^verbatim>\<open>false\<close>, and the promise of \<^verbatim>\<open>onSubmit\<close> is fulfilled: the error
  does not leave the handler.
\<close>

theorem fetch_failure_keeps_result:
  "result (fst (onSubmit_settle Rejected (onSubmit_start data st))) = result st
   \<and> result_card_shown (fst (onSubmit_settle Rejected (onSubmit_start data st)))
       = result_card_shown st
   \<and> setResult_calls (fst (onSubmit_settle Rejected (onSubmit_start data st)))
       = setResult_calls st
   \<and> loading (fst (onSubmit_settle Rejected (onSubmit_start data st))) = False
   \<and> snd (onSubmit_settle Rejected (onSubmit_start data st)) = Fulfilled
   \<and> result (fst (onSubmit_settle Rejected (onSubmit_start_part_000 data st))) = result st
   \<and> result_card_shown (fst (onSubmit_settle Rejected (onSubmit_start_part_000 data st)))
       = result_card_shown st
   \<and> setResult_calls (fst (onSubmit_settle Rejected (onSubmit_start_part_000 data st)))
       = setResult_calls st
   \<and> loading (fst (onSubmit_settle Rejected (onSubmit_start_part_000 data st))) = False
   \<and> snd (onSubmit_settle Rejected (onSubmit_start_part_000 data st)) = Fulfilled"
  by (simp add: result_card_shown_def)

subsection \<open>Overlapping submissions\<close>

text \<open>
  Claim C1, as stated, fails: no response is discarded. When two calls overlap and the
  response to the second arrives before the response to the first, in either version
  \<^verbatim>\<open>setResult\<close> is called twice and the result left at the end is the response to
  the first call.
\<close>

theorem stale_response_wins:
  "result (app (run onSubmit_start
      [Submit sample_data, Submit (sample_data \<lparr> Bet := JNumber (Fin 99) \<rparr>),
       Arrive 1 (Responded 200 (JsonBody high_response)),
       Arrive 0 (Responded 200 (JsonBody low_response))])) = low_response
   \<and> setResult_calls (app (run onSubmit_start
      [Submit sample_data, Submit (sample_data \<lparr> Bet := JNumber (Fin 99) \<rparr>),
       Arrive 1 (Responded 200 (JsonBody high_response)),
       Arrive 0 (Responded 200 (JsonBody low_response))])) = [high_response, low_response]
   \<and> result (app (run onSubmit_start_part_000
      [Submit sample_data, Submit (sample_data \<lparr> Bet := JNumber (Fin 99) \<rparr>),
       Arrive 1 (Responded 200 (JsonBody high_response)),
       Arrive 0 (Responded 200 (JsonBody low_response))])) = low_response
   \<and> setResult_calls (app (run onSubmit_start_part_000
      [Submit sample_data, Submit (sample_data \<lparr> Bet := JNumber (Fin 99) \<rparr>),
       Arrive 1 (Responded 200 (JsonBody high_response)),
       Arrive 0 (Responded 200 (JsonBody low_response))])) = [high_response, low_response]
   \<and> low_response \<noteq> high_response"
  by (simp add: run_def initial_system_def initial_state_def low_response_def
        high_response_def)

lemma two_arrivals:
  assumes f: "\<And>d s. fetched (start d s) = fetched s @ [req d]"
      and r: "\<And>d s. result (start d s) = result s"
      and c: "\<And>d s. setResult_calls (start d s) = setResult_calls s"
      and kl: "(k, l) = (0, 1) \<or> (k, l) = (1, 0)"
  shows "result (app (run start [Submit d1, Submit d2,
            Arrive k (Responded s1 (JsonBody j1)), Arrive l (Responded s2 (JsonBody j2))])) = j2
       \<and> setResult_calls (app (run start [Submit d1, Submit d2,
            Arrive k (Responded s1 (JsonBody j1)), Arrive l (Responded s2 (JsonBody j2))]))
           = [j1, j2]"
  using kl by (auto simp: run_def initial_system_def initial_state_def f r c)

text \<open>
  Claim C1, amended. When two calls of \<^verbatim>\<open>onSubmit\<close> overlap and both responses carry
  JSON, each response is published when it arrives: \<^verbatim>\<open>setResult\<close> is called twice, in
  the order of arrival, and the result left at the end is the response that arrived last,
  the second call's when the responses arrive in the order of the calls and the first
  call's when they arrive in the opposite order. This holds in both versions.
\<close>

theorem last_arrival_wins:
  "result (app (run onSubmit_start [Submit d1, Submit d2,
      Arrive 0 (Responded s1 (JsonBody j1)), Arrive 1 (Responded s2 (JsonBody j2))])) = j2
   \<and> result (app (run onSubmit_start [Submit d1, Submit d2,
      Arrive 1 (Responded s2 (JsonBody j2)), Arrive 0 (Responded s1 (JsonBody j1))])) = j1
   \<and> setResult_calls (app (run onSubmit_start [Submit d1, Submit d2,
      Arrive 0 (Responded s1 (JsonBody j1)), Arrive 1 (Responded s2 (JsonBody j2))])) = [j1, j2]
   \<and> setResult_calls (app (run onSubmit_start [Submit d1, Submit d2,
      Arrive 1 (Responded s2 (JsonBody j2)), Arrive 0 (Responded s1 (JsonBody j1))])) = [j2, j1]
   \<and> result (app (run onSubmit_start_part_000 [Submit d1, Submit d2,
      Arrive 0 (Responded s1 (JsonBody j1)), Arrive 1 (Responded s2 (JsonBody j2))])) = j2
   \<and> result (app (run onSubmit_start_part_000 [Submit d1, Submit d2,
      Arrive 1 (Responded s2 (JsonBody j2)), Arrive 0 (Responded s1 (JsonBody j1))])) = j1
   \<and> setResult_calls (app (run onSubmit_start_part_000 [Submit d1, Submit d2,
      Arrive 0 (Responded s1 (JsonBody j1)), Arrive 1 (Responded s2 (JsonBody j2))])) = [j1, j2]
   \<and> setResult_calls (app (run onSubmit_start_part_000 [Submit d1, Submit d2,
      Arrive 1 (Responded s2 (JsonBody j2)), Arrive 0 (Responded s1 (JsonBody j1))])) = [j2, j1]"
  using two_arrivals [of onSubmit_start "\<lambda>d. predict_request (request_body Number Number d)"
          0 1 d1 d2 s1 j1 s2 j2]
        two_arrivals [of onSubmit_start "\<lambda>d. predict_request (request_body Number Number d)"
          1 0 d1 d2 s2 j2 s1 j1]
        two_arrivals [of onSubmit_start_part_000
          "\<lambda>d. predict_request (request_body parseFloat parseInt d)" 0 1 d1 d2 s1 j1 s2 j2]
        two_arrivals [of onSubmit_start_part_000
          "\<lambda>d. predict_request (request_body parseFloat parseInt d)" 1 0 d1 d2 s2 j2 s1 j1]
  by simp

end
